theory Spec2Isabelle
  imports Main "HOL-Library.Monad_Syntax"
begin

section \<open>The BigQuery destination of mage\_integrations\<close>

text \<open>
  The development embeds the class \<open>BigQuery\<close> of
  \<^verbatim>\<open>mage_integrations/destinations/bigquery/__init__.py\<close>: the three builders of SQL
  command lists (\<open>build_create_table_commands\<close>, \<open>build_alter_table_commands\<close>,
  \<open>build_insert_commands\<close>) and \<open>calculate_records_inserted_and_updated\<close>.
  Python strings are \<open>string\<close>, an argument that defaults to \<open>None\<close> is an
  \<open>option\<close>, a raised exception is the result \<open>None\<close> of an \<open>option\<close>-valued
  function, and the \<open>for\<close> loops are \<open>fold\<close>s and \<open>map\<close>s over lists.
\<close>

subsection \<open>Python values and strings\<close>

text \<open>
  The fields of a result row and of a record. Python's \<open>int\<close> is unbounded; \<open>bool\<close>
  is a type of its own (\<open>type(True) is int\<close> is false); a float is kept as a mantissa
  and a binary exponent.
\<close>

datatype py_value =
    PyNone
  | PyBool bool
  | PyInt int
  | PyFloat int int
  | PyStr string
  | PyList "py_value list"

text \<open>\<open>sep.join(xs)\<close>.\<close>

fun join :: "string \<Rightarrow> string list \<Rightarrow> string" where
  "join sep [] = []"
| "join sep [x] = x"
| "join sep (x # y # ys) = x @ sep @ join sep (y # ys)"

text \<open>\<open>f'{x}'\<close> for an \<open>x\<close> that is a string or \<open>None\<close>: \<open>str(None)\<close> is \<open>'None'\<close>.\<close>

fun format_str :: "string option \<Rightarrow> string" where
  "format_str None = ''None''"
| "format_str (Some s) = s"

text \<open>Truthiness of an optional string and of an optional list, as \<open>if x\<close> tests it.\<close>

fun truthy :: "'a list option \<Rightarrow> bool" where
  "truthy None = False"
| "truthy (Some xs) = (xs \<noteq> [])"

definition newline :: string where
  "newline = [CHR 0x0A]"

definition quote :: string where
  "quote = [CHR 0x27]"

subsection \<open>Schemas, records and the destination object\<close>

text \<open>
  A schema is the dict whose entry \<open>'properties'\<close> maps each column name to its
  settings, in insertion order: \<open>schema['properties'].keys()\<close> is
  \<open>map fst (properties schema)\<close>. The settings of a column are its kind and, for an
  array, the kind of its items, when declared.
\<close>

datatype kind = KString | KNumber | KInteger | KBoolean | KArray | KObject

record column_settings =
  kind :: kind
  item_kind :: "kind option"

record schema =
  properties :: "(string \<times> column_settings) list"

text \<open>A record of a batch maps column names to values; a type mapping maps column
  names to SQL types.\<close>

type_synonym py_record = "(string \<times> py_value) list"
type_synonym type_mapping = "(string \<times> string) list"

text \<open>
  The destination object: its \<open>config\<close> dict and the partition keys of each stream.
  \<open>partition_keys\<close> is read with \<open>.get(stream, [])\<close>, where \<open>stream\<close> may be
  \<open>None\<close>, so its keys are optional strings.
\<close>

record destination =
  config :: "string \<rightharpoonup> string"
  partition_keys :: "string option \<rightharpoonup> string list"

datatype connection = BigQueryConnection (path_to_credentials_json_file: string)

subsection \<open>The imported collaborators\<close>

text \<open>
  The class imports its helpers from modules that are not among the sources here:
  \<open>column_type_mapping\<close>, \<open>build_create_table_command\<close>,
  \<open>build_alter_table_command\<close> and \<open>build_insert_command\<close>
  (\<open>destinations.sql.utils\<close>), \<open>clean_column_name\<close> (\<open>destinations.utils\<close>),
  \<open>convert_column_type\<close> and \<open>convert_column_to_type\<close>
  (\<open>destinations.bigquery.utils\<close>), the constant
  \<open>UNIQUE_CONFLICT_METHOD_UPDATE\<close> (\<open>destinations.constants\<close>) and the method
  \<open>load\<close> of the connection (\<open>connections.bigquery\<close>). They are parameters of
  the embedding: every builder takes the record \<open>U\<close> of them, and a theorem with a free
  \<open>U\<close> holds for every implementation. A helper that raises returns \<open>None\<close>.
  A row that \<open>load\<close> returns for the metadata query has the two selected fields,
  \<open>column_name\<close> and \<open>data_type\<close>.
\<close>

type_synonym convert_column_type_fn = "kind \<Rightarrow> string \<Rightarrow> string \<Rightarrow> string option"
type_synonym convert_column_to_type_fn = "py_value \<Rightarrow> string \<Rightarrow> string"

record collaborators =
  column_type_mapping ::
    "schema \<Rightarrow> convert_column_type_fn \<Rightarrow> (string option \<Rightarrow> string) \<Rightarrow> string \<Rightarrow> string
       \<Rightarrow> type_mapping option"
  build_create_table_command ::
    "type_mapping \<Rightarrow> string list \<Rightarrow> string \<Rightarrow> string list option \<Rightarrow> string option"
  build_alter_table_command ::
    "type_mapping \<Rightarrow> string list \<Rightarrow> string \<Rightarrow> string option"
  build_insert_command ::
    "type_mapping \<Rightarrow> string list \<Rightarrow> convert_column_to_type_fn \<Rightarrow> py_record list
       \<Rightarrow> (string list \<times> string list) option"
  clean_column_name :: "string \<Rightarrow> string"
  convert_column_type :: convert_column_type_fn
  convert_column_to_type :: convert_column_to_type_fn
  UNIQUE_CONFLICT_METHOD_UPDATE :: string
  load :: "connection \<Rightarrow> string \<Rightarrow> (string \<times> string) list option"

subsection \<open>build\_connection\<close>

text \<open>\<open>self.config['path_to_credentials_json_file']\<close> raises \<open>KeyError\<close> when the
  key is absent.\<close>

definition build_connection :: "destination \<Rightarrow> connection option" where
  "build_connection self =
     map_option BigQueryConnection (config self ''path_to_credentials_json_file'')"

subsection \<open>build\_create\_table\_commands\<close>

text \<open>
  The call \<open>column_type_mapping(schema, convert_column_type, lambda item_type_converted:
  'ARRAY', number_type='FLOAT64', string_type='STRING')\<close>, which the three builders make.
\<close>

abbreviation bigquery_type_mapping :: "collaborators \<Rightarrow> schema \<Rightarrow> type_mapping option" where
  "bigquery_type_mapping U schema \<equiv>
     column_type_mapping U schema (convert_column_type U)
       (\<lambda>item_type_converted. ''ARRAY'') ''FLOAT64'' ''STRING''"

text \<open>
  The partition clause is the triple-quoted f-string of the source: a line break, the
  command, \<open>PARTITION BY\<close>, the \<open>DATE\<close> of the first partition key, and the twelve
  blanks before the closing quotes.
\<close>

definition build_create_table_commands ::
  "collaborators \<Rightarrow> destination \<Rightarrow> schema \<Rightarrow> string \<Rightarrow> string option \<Rightarrow> string
     \<Rightarrow> string option \<Rightarrow> string list option \<Rightarrow> string list option" where
  "build_create_table_commands U self schema schema_name stream table_name database_name
       unique_constraints =
     do {
       type_mapping \<leftarrow> bigquery_type_mapping U schema;
       create_table_command \<leftarrow>
         build_create_table_command U type_mapping (map fst (properties schema))
           (schema_name @ ''.'' @ table_name) None;
       let stream_partition_keys =
         (case partition_keys self stream of None \<Rightarrow> [] | Some keys \<Rightarrow> keys);
       let create_table_command =
         (if length stream_partition_keys > 0
          then let partition_col = stream_partition_keys ! 0
               in newline @ create_table_command @ newline @ ''PARTITION BY'' @ newline
                    @ ''  DATE('' @ partition_col @ '')'' @ newline @ ''            ''
          else create_table_command);
       Some [create_table_command]
     }"

subsection \<open>build\_alter\_table\_commands\<close>

text \<open>The metadata query, with the line breaks and indentation of the source.\<close>

definition columns_query :: "string \<Rightarrow> string \<Rightarrow> string" where
  "columns_query schema_name table_name =
     newline @ ''SELECT'' @ newline @ ''    column_name'' @ newline @ ''    , data_type''
       @ newline @ ''FROM '' @ schema_name @ ''.INFORMATION_SCHEMA.COLUMNS''
       @ newline @ ''WHERE TABLE_NAME = '' @ quote @ table_name @ quote
       @ newline @ ''        ''"

text \<open>
  The type mapping is computed only when there is a new column: the early return
  \<open>if not new_columns: return []\<close> comes before it.
\<close>

definition build_alter_table_commands ::
  "collaborators \<Rightarrow> destination \<Rightarrow> schema \<Rightarrow> string \<Rightarrow> string option \<Rightarrow> string
     \<Rightarrow> string option \<Rightarrow> string list option \<Rightarrow> string list option" where
  "build_alter_table_commands U self schema schema_name stream table_name database_name
       unique_constraints =
     do {
       connection \<leftarrow> build_connection self;
       results \<leftarrow> load U connection (columns_query schema_name table_name);
       let current_columns = map fst results;
       let schema_columns = map fst (properties schema);
       let new_columns = filter (\<lambda>c. c \<notin> set current_columns) schema_columns;
       if new_columns = [] then Some []
       else do {
         type_mapping \<leftarrow> bigquery_type_mapping U schema;
         command \<leftarrow>
           build_alter_table_command U type_mapping new_columns
             (schema_name @ ''.'' @ table_name);
         Some [command]
       }
     }"

subsection \<open>build\_insert\_commands\<close>

text \<open>The elements of an optional list that has passed the truthiness test.\<close>

fun elems :: "'a list option \<Rightarrow> 'a list" where
  "elems None = []"
| "elems (Some xs) = xs"

text \<open>
  The list \<open>merge_commands\<close> of the upsert branch: the three leading clauses, the
  \<open>WHEN MATCHED\<close> clause when the method is the update constant, and the
  \<open>WHEN NOT MATCHED\<close> clause. \<open>unique_constraints\<close> and \<open>columns_cleaned\<close> are the
  sanitised names.
\<close>

definition merge_commands ::
  "collaborators \<Rightarrow> string \<Rightarrow> string \<Rightarrow> string \<Rightarrow> string list \<Rightarrow> string list
     \<Rightarrow> string option \<Rightarrow> string list" where
  "merge_commands U full_table_name full_table_name_temp insert_columns unique_constraints
       columns_cleaned unique_conflict_method =
     (let merge_commands =
            [''MERGE INTO '' @ full_table_name @ '' AS a'',
             ''USING (SELECT * FROM '' @ full_table_name_temp @ '') AS b'',
             ''ON '' @ join '' AND ''
                        (map (\<lambda>col. ''a.'' @ col @ '' = b.'' @ col) unique_constraints)];
          merge_commands =
            (if Some (UNIQUE_CONFLICT_METHOD_UPDATE U) = unique_conflict_method
             then let set_command =
                        join '', '' (map (\<lambda>col. ''a.'' @ col @ '' = b.'' @ col) columns_cleaned)
                  in merge_commands @ [''WHEN MATCHED THEN UPDATE SET '' @ set_command]
             else merge_commands);
          merge_values = ''('' @ join '', '' (map (\<lambda>col. ''b.'' @ col) columns_cleaned) @ '')''
      in merge_commands
           @ [''WHEN NOT MATCHED THEN INSERT ('' @ insert_columns @ '') VALUES '' @ merge_values])"

definition build_insert_commands ::
  "collaborators \<Rightarrow> destination \<Rightarrow> py_record list \<Rightarrow> schema \<Rightarrow> string \<Rightarrow> string
     \<Rightarrow> string option \<Rightarrow> string option \<Rightarrow> string list option \<Rightarrow> string list option" where
  "build_insert_commands U self records schema schema_name table_name database_name
       unique_conflict_method unique_constraints =
     (let full_table_name = format_str database_name @ ''.'' @ schema_name @ ''.'' @ table_name;
          full_table_name_temp =
            format_str database_name @ ''.'' @ schema_name @ ''.temp_'' @ table_name;
          columns = map fst (properties schema)
      in do {
        mapping \<leftarrow> bigquery_type_mapping U schema;
        (insert_columns, insert_values) \<leftarrow>
          build_insert_command U mapping columns (convert_column_to_type U) records;
        let insert_columns = join '', '' insert_columns;
        let insert_values = join '', '' insert_values;
        if truthy unique_constraints \<and> truthy unique_conflict_method
        then do {
          let drop_temp_table_command = ''DROP TABLE IF EXISTS '' @ full_table_name_temp;
          create_table_commands \<leftarrow>
            build_create_table_commands U self schema schema_name None (''temp_'' @ table_name)
              database_name unique_constraints;
          let commands =
            [drop_temp_table_command] @ create_table_commands
              @ [''INSERT INTO '' @ full_table_name_temp @ '' ('' @ insert_columns
                   @ '') VALUES '' @ insert_values];
          let unique_constraints = map (clean_column_name U) (elems unique_constraints);
          let columns_cleaned = map (clean_column_name U) columns;
          let merge_command =
            join newline
              (merge_commands U full_table_name full_table_name_temp insert_columns
                 unique_constraints columns_cleaned unique_conflict_method);
          Some (commands @ [merge_command, drop_temp_table_command])
        }
        else Some [''INSERT INTO '' @ full_table_name @ '' ('' @ insert_columns
                     @ '') VALUES '' @ insert_values]
      })"

subsection \<open>The helpers as the specification describes them\<close>

text \<open>
  Modelled from the spec: the conversion of one column by \<open>column_type_mapping\<close>,
  which is not among the sources. Section 4.1: an array column maps to the array rule
  of the dialect regardless of its item type; the rule is applied to the converted item
  type, which is \<open>None\<close> when the items are undeclared or have no conversion. Any other
  column maps to the dialect's conversion of its kind, given the numeric and the string
  type name; a kind with no conversion fails (\<open>UnsupportedTypeError\<close>).
\<close>

definition column_type_converted ::
  "convert_column_type_fn \<Rightarrow> (string option \<Rightarrow> string) \<Rightarrow> string \<Rightarrow> string
     \<Rightarrow> column_settings \<Rightarrow> string option" where
  "column_type_converted convert_column_type_func convert_array_column_type_func number_type
       string_type settings =
     (if kind settings = KArray
      then Some (convert_array_column_type_func
                   (Option.bind (item_kind settings)
                      (\<lambda>item_type. convert_column_type_func item_type number_type string_type)))
      else convert_column_type_func (kind settings) number_type string_type)"

text \<open>
  Modelled from the spec: \<open>column_type_mapping\<close> of \<open>destinations.sql.utils\<close> is not
  among the sources. Section 4.1: given a schema, the dialect's conversion of primitive
  kinds, its rule for arrays and its numeric and string type names, produce the mapping
  from column name to SQL type, one entry per column in schema order; it fails when a
  column does.
\<close>

definition column_type_mapping_spec ::
  "schema \<Rightarrow> convert_column_type_fn \<Rightarrow> (string option \<Rightarrow> string) \<Rightarrow> string \<Rightarrow> string
     \<Rightarrow> type_mapping option" where
  "column_type_mapping_spec schema convert_column_type_func convert_array_column_type_func
       number_type string_type =
     those (map (\<lambda>(column, settings).
                   map_option (Pair column)
                     (column_type_converted convert_column_type_func
                        convert_array_column_type_func number_type string_type settings))
              (properties schema))"

text \<open>
  Modelled from the spec: the mapped types of the columns a command helper is given
  (the helpers are not among the sources). Sections 4.3 to 4.5 write each column "with
  its mapped type": \<open>column_type_mapping[col]\<close> for each of the columns, where a column
  without an entry raises \<open>KeyError\<close>.
\<close>

definition mapped_types :: "type_mapping \<Rightarrow> string list \<Rightarrow> string list option" where
  "mapped_types mapping columns = those (map (map_of mapping) columns)"

text \<open>
  Modelled from the spec: \<open>build_create_table_command\<close> of \<open>destinations.sql.utils\<close>
  is not among the sources. Section 4.3: one \<open>CREATE TABLE\<close> command listing every
  column, under its sanitised name (section 4.2), with its mapped type, in the order
  given. The specification describes no rendering of unique constraints, and this
  destination passes none.
\<close>

definition build_create_table_command_spec ::
  "(string \<Rightarrow> string) \<Rightarrow> type_mapping \<Rightarrow> string list \<Rightarrow> string \<Rightarrow> string option" where
  "build_create_table_command_spec clean mapping columns full_table_name =
     map_option
       (\<lambda>types. ''CREATE TABLE '' @ full_table_name @ '' (''
                  @ join '', '' (map (\<lambda>(col, t). clean col @ '' '' @ t) (zip columns types))
                  @ '')'')
       (mapped_types mapping columns)"

text \<open>
  Modelled from the spec: \<open>build_alter_table_command\<close> of \<open>destinations.sql.utils\<close>
  is not among the sources. Sections 4.4 and 8: one \<open>ALTER TABLE\<close> command with an
  \<open>ADD COLUMN name type\<close> for each of the columns given, separated by commas, in
  the order given.
\<close>

definition build_alter_table_command_spec ::
  "(string \<Rightarrow> string) \<Rightarrow> type_mapping \<Rightarrow> string list \<Rightarrow> string \<Rightarrow> string option" where
  "build_alter_table_command_spec clean mapping columns full_table_name =
     map_option
       (\<lambda>types. ''ALTER TABLE '' @ full_table_name @ '' ''
                  @ join '', ''
                      (map (\<lambda>(col, t). ''ADD COLUMN '' @ clean col @ '' '' @ t)
                         (zip columns types)))
       (mapped_types mapping columns)"

text \<open>
  Modelled from the spec: the literal of one field, written by \<open>build_insert_command\<close>,
  which is not among the sources. Section 4.5: each value is converted per the mapped
  SQL type of its column, and a missing or \<open>None\<close> value is \<open>NULL\<close>.
\<close>

definition literal ::
  "convert_column_to_type_fn \<Rightarrow> py_record \<Rightarrow> string \<Rightarrow> string \<Rightarrow> string" where
  "literal convert_column_to_type_func row column column_type =
     (case map_of row column of
        None \<Rightarrow> ''NULL''
      | Some PyNone \<Rightarrow> ''NULL''
      | Some v \<Rightarrow> convert_column_to_type_func v column_type)"

text \<open>
  Modelled from the spec: the literal tuple of one record, written by
  \<open>build_insert_command\<close>, which is not among the sources. Sections 4.5 and 8: the
  literals of the columns in the order given, separated by commas, in parentheses, as in
  \<open>(1, 'a')\<close>.
\<close>

definition literal_tuple ::
  "convert_column_to_type_fn \<Rightarrow> (string \<times> string) list \<Rightarrow> py_record \<Rightarrow> string" where
  "literal_tuple convert_column_to_type_func columns_and_types row =
     ''('' @ join '', ''
               (map (\<lambda>(column, column_type).
                       literal convert_column_to_type_func row column column_type)
                  columns_and_types)
          @ '')''"

text \<open>
  Modelled from the spec: \<open>build_insert_command\<close> of \<open>destinations.sql.utils\<close> is not
  among the sources. Section 4.5: every record is serialised into a literal tuple; the
  result is the column list of the \<open>INSERT\<close> (the sanitised names, section 4.2) and the
  list of tuples, one per record in batch order.
\<close>

definition build_insert_command_spec ::
  "(string \<Rightarrow> string) \<Rightarrow> type_mapping \<Rightarrow> string list \<Rightarrow> convert_column_to_type_fn
     \<Rightarrow> py_record list \<Rightarrow> (string list \<times> string list) option" where
  "build_insert_command_spec clean mapping columns convert_column_to_type_func records =
     map_option
       (\<lambda>types. (map clean columns,
                  map (literal_tuple convert_column_to_type_func (zip columns types)) records))
       (mapped_types mapping columns)"

text \<open>
  Modelled from the spec: the module \<open>destinations.sql.utils\<close>, which is not among the
  sources, as the collaborators with its four helpers as described above.
  The sanitiser, the two conversions of the dialect, the update constant and the
  connection stay parameters, and so does what \<open>build_create_table_command\<close> returns
  when it is given unique constraints, which the specification leaves open.
\<close>

definition sql_utils_spec ::
  "(string \<Rightarrow> string) \<Rightarrow> convert_column_type_fn \<Rightarrow> convert_column_to_type_fn \<Rightarrow> string
     \<Rightarrow> (connection \<Rightarrow> string \<Rightarrow> (string \<times> string) list option)
     \<Rightarrow> (type_mapping \<Rightarrow> string list \<Rightarrow> string \<Rightarrow> string list \<Rightarrow> string option)
     \<Rightarrow> collaborators" where
  "sql_utils_spec clean convert convert_to update_method load_func create_with_constraints =
     \<lparr> column_type_mapping = column_type_mapping_spec,
       build_create_table_command =
         (\<lambda>mapping columns full_table_name unique_constraints.
            case unique_constraints of
              None \<Rightarrow> build_create_table_command_spec clean mapping columns full_table_name
            | Some constraints \<Rightarrow>
                create_with_constraints mapping columns full_table_name constraints),
       build_alter_table_command = build_alter_table_command_spec clean,
       build_insert_command = build_insert_command_spec clean,
       clean_column_name = clean,
       convert_column_type = convert,
       convert_column_to_type = convert_to,
       UNIQUE_CONFLICT_METHOD_UPDATE = update_method,
       load = load_func \<rparr>"

subsection \<open>A sample dialect and sample inputs\<close>

text \<open>
  Concrete collaborators on which the builders are evaluated: a sanitiser that replaces
  blanks by underscores, a conversion with no rule for objects, literals for strings,
  integers and booleans, the method \<open>'UPDATE'\<close>, a live table with the one
  column \<open>id\<close>, and a \<open>build_create_table_command\<close> that fails on unique
  constraints.
\<close>

definition sample_clean_column_name :: "string \<Rightarrow> string" where
  "sample_clean_column_name col = map (\<lambda>c. if c = CHR '' '' then CHR ''_'' else c) col"

fun sample_convert_column_type :: convert_column_type_fn where
  "sample_convert_column_type KString number_type string_type = Some string_type"
| "sample_convert_column_type KNumber number_type string_type = Some number_type"
| "sample_convert_column_type KInteger number_type string_type = Some ''INT64''"
| "sample_convert_column_type KBoolean number_type string_type = Some ''BOOL''"
| "sample_convert_column_type KArray number_type string_type = None"
| "sample_convert_column_type KObject number_type string_type = None"

fun str_nat :: "nat \<Rightarrow> string" where
  "str_nat n =
     (if n < 10 then [''0123456789'' ! n]
      else str_nat (n div 10) @ [''0123456789'' ! (n mod 10)])"

fun sample_convert_column_to_type :: convert_column_to_type_fn where
  "sample_convert_column_to_type (PyStr s) column_type = quote @ s @ quote"
| "sample_convert_column_to_type (PyInt n) column_type =
     (if n < 0 then ''-'' @ str_nat (nat (- n)) else str_nat (nat n))"
| "sample_convert_column_to_type (PyBool b) column_type = (if b then ''TRUE'' else ''FALSE'')"
| "sample_convert_column_to_type v column_type = ''NULL''"

definition sample_load :: "connection \<Rightarrow> string \<Rightarrow> (string \<times> string) list option" where
  "sample_load connection query = Some [(''id'', ''INT64'')]"

definition sample_utils :: collaborators where
  "sample_utils =
     sql_utils_spec sample_clean_column_name sample_convert_column_type
       sample_convert_column_to_type ''UPDATE'' sample_load
       (\<lambda>mapping columns full_table_name constraints. None)"

definition sample_destination :: destination where
  "sample_destination =
     \<lparr> config = [''path_to_credentials_json_file'' \<mapsto> ''key.json''],
       partition_keys = [Some ''events'' \<mapsto> [''created_at'', ''day'']] \<rparr>"

text \<open>A second destination object and a second connection: other credentials, and a
  live table that answers only the metadata query of \<open>ds.users\<close>.\<close>

definition other_destination :: destination where
  "other_destination =
     \<lparr> config = [''path_to_credentials_json_file'' \<mapsto> ''other.json''],
       partition_keys = [Some ''events'' \<mapsto> [''created_at'', ''day'']] \<rparr>"

definition other_load :: "connection \<Rightarrow> string \<Rightarrow> (string \<times> string) list option" where
  "other_load connection query =
     (if query = columns_query ''ds'' ''users'' then Some [(''id'', ''INT64'')] else None)"

definition sample_schema :: schema where
  "sample_schema =
     \<lparr> properties =
         [(''id'', \<lparr> kind = KInteger, item_kind = None \<rparr>),
          (''name'', \<lparr> kind = KString, item_kind = None \<rparr>)] \<rparr>"

definition sample_schema_wide :: schema where
  "sample_schema_wide =
     \<lparr> properties =
         [(''id'', \<lparr> kind = KInteger, item_kind = None \<rparr>),
          (''name'', \<lparr> kind = KString, item_kind = None \<rparr>),
          (''age'', \<lparr> kind = KInteger, item_kind = None \<rparr>)] \<rparr>"

definition sample_schema_arrays :: schema where
  "sample_schema_arrays =
     \<lparr> properties =
         [(''id'', \<lparr> kind = KInteger, item_kind = None \<rparr>),
          (''tags'', \<lparr> kind = KArray, item_kind = Some KString \<rparr>),
          (''blobs'', \<lparr> kind = KArray, item_kind = Some KObject \<rparr>)] \<rparr>"

definition sample_records :: "py_record list" where
  "sample_records =
     [[(''id'', PyInt 1), (''name'', PyStr ''a'')],
      [(''id'', PyInt 2), (''name'', PyStr ''b'')]]"

subsection \<open>calculate\_records\_inserted\_and\_updated\<close>

text \<open>
  \<^verbatim>\<open>
  records_inserted = 0
  for array_of_tuples in data:
      for t in array_of_tuples:
          if len(t) >= 1 and type(t[0]) is int:
              records_inserted += t[0]
  return records_inserted, 0
  \<close>
  A result row is the list of its fields. \<open>t[0]\<close> is read only behind \<open>len(t) >= 1\<close>,
  so the row is matched against a leading \<open>PyInt\<close>. The method reads neither \<open>self\<close>
  nor its two keyword arguments.
\<close>

fun add_row :: "py_value list \<Rightarrow> int \<Rightarrow> int" where
  "add_row (PyInt n # rest) records_inserted = records_inserted + n"
| "add_row t records_inserted = records_inserted"

definition calculate_records_inserted_and_updated ::
  "py_value list list list \<Rightarrow> string list option \<Rightarrow> string option \<Rightarrow> int \<times> int" where
  "calculate_records_inserted_and_updated data unique_constraints unique_conflict_method =
     (fold (\<lambda>array_of_tuples records_inserted. fold add_row array_of_tuples records_inserted)
        data 0, 0)"

text \<open>
  The count the specification describes: the leading field of a row where that field
  exists and is an integer, nothing for any other row.
\<close>

fun leading_count :: "py_value list \<Rightarrow> int" where
  "leading_count (PyInt n # rest) = n"
| "leading_count t = 0"

text \<open>The non-key columns of a schema: the columns that are not among the unique
  constraints, in schema order.\<close>

definition non_key_columns :: "string list \<Rightarrow> string list \<Rightarrow> string list" where
  "non_key_columns columns unique_constraints =
     filter (\<lambda>col. col \<notin> set unique_constraints) columns"

text \<open>A clause of a merge command that acts on matched rows.\<close>

definition is_matched_update_clause :: "string \<Rightarrow> bool" where
  "is_matched_update_clause clause = (take 12 clause = ''WHEN MATCHED'')"

section \<open>Properties\<close>

lemma add_row_leading_count: "add_row t acc = acc + leading_count t"
  by (induction t acc rule: add_row.induct) simp_all

lemma fold_add_row: "fold add_row ts acc = acc + sum_list (map leading_count ts)"
  by (induction ts arbitrary: acc) (simp_all add: add_row_leading_count)

lemma fold_fold_add_row:
  "fold (\<lambda>ts acc. fold add_row ts acc) data acc
     = acc + sum_list (map leading_count (concat data))"
  by (induction data arbitrary: acc) (simp_all add: fold_add_row)

lemma calculate_records_example:
  "calculate_records_inserted_and_updated
     [[[PyInt 3], [PyStr ''x'', PyInt 9], []], [[PyBool True], [PyInt 4, PyNone]]]
     (Some [''id'']) (Some ''UPDATE'') = (7, 0)"
  by (simp add: calculate_records_inserted_and_updated_def)

text \<open>
  C7. For every list of raw result sets, \<open>calculate_records_inserted_and_updated\<close>
  returns a pair whose first component is the sum, over all result rows of all result
  sets, of the row's leading field where that field exists and is an integer, and whose
  second component, the number of records updated, is 0, whatever the unique
  constraints and the conflict method are (plain insert and upsert alike).
\<close>

theorem calculate_records_sum:
  "calculate_records_inserted_and_updated data unique_constraints unique_conflict_method
     = (sum_list (map leading_count (concat data)), 0)"
  by (simp add: calculate_records_inserted_and_updated_def fold_fold_add_row)

subsection \<open>The create builder\<close>

lemma build_create_table_commands_result:
  assumes "bigquery_type_mapping U schema = Some mapping"
    and "build_create_table_command U mapping (map fst (properties schema))
           (schema_name @ ''.'' @ table_name) None = Some command"
  shows "build_create_table_commands U self schema schema_name stream table_name database_name
           unique_constraints =
         Some [case partition_keys self stream of
                 Some (partition_col # keys) \<Rightarrow>
                   newline @ command @ newline @ ''PARTITION BY'' @ newline
                     @ ''  DATE('' @ partition_col @ '')'' @ newline @ ''            ''
               | _ \<Rightarrow> command]"
  using assms
  by (simp add: build_create_table_commands_def Let_def split: option.splits list.splits)

subsection \<open>The insert builder\<close>

lemma build_insert_commands_upsert:
  assumes "bigquery_type_mapping U schema = Some mapping"
    and "build_insert_command U mapping (map fst (properties schema))
           (convert_column_to_type U) records = Some (insert_columns, insert_values)"
    and "build_create_table_commands U self schema schema_name None (''temp_'' @ table_name)
           database_name (Some unique_constraints) = Some create_table_commands"
    and "unique_constraints \<noteq> []" and "unique_conflict_method \<noteq> []"
  shows "build_insert_commands U self records schema schema_name table_name database_name
           (Some unique_conflict_method) (Some unique_constraints) =
         Some ([''DROP TABLE IF EXISTS '' @ format_str database_name @ ''.'' @ schema_name
                  @ ''.temp_'' @ table_name]
               @ create_table_commands
               @ [''INSERT INTO '' @ format_str database_name @ ''.'' @ schema_name
                    @ ''.temp_'' @ table_name @ '' ('' @ join '', '' insert_columns
                    @ '') VALUES '' @ join '', '' insert_values,
                  join newline
                    (merge_commands U
                       (format_str database_name @ ''.'' @ schema_name @ ''.'' @ table_name)
                       (format_str database_name @ ''.'' @ schema_name @ ''.temp_'' @ table_name)
                       (join '', '' insert_columns)
                       (map (clean_column_name U) unique_constraints)
                       (map (clean_column_name U) (map fst (properties schema)))
                       (Some unique_conflict_method)),
                  ''DROP TABLE IF EXISTS '' @ format_str database_name @ ''.'' @ schema_name
                    @ ''.temp_'' @ table_name])"
  using assms by (simp add: build_insert_commands_def Let_def)

lemma build_insert_commands_plain:
  assumes "bigquery_type_mapping U schema = Some mapping"
    and "build_insert_command U mapping (map fst (properties schema))
           (convert_column_to_type U) records = Some (insert_columns, insert_values)"
    and "\<not> (truthy unique_constraints \<and> truthy unique_conflict_method)"
  shows "build_insert_commands U self records schema schema_name table_name database_name
           unique_conflict_method unique_constraints =
         Some [''INSERT INTO '' @ format_str database_name @ ''.'' @ schema_name @ ''.''
                 @ table_name @ '' ('' @ join '', '' insert_columns @ '') VALUES ''
                 @ join '', '' insert_values]"
  using assms by (auto simp add: build_insert_commands_def Let_def)

lemma merge_commands_other:
  assumes "unique_conflict_method \<noteq> Some (UNIQUE_CONFLICT_METHOD_UPDATE U)"
  shows "merge_commands U full_table_name full_table_name_temp insert_columns
           unique_constraints columns_cleaned unique_conflict_method =
         [''MERGE INTO '' @ full_table_name @ '' AS a'',
          ''USING (SELECT * FROM '' @ full_table_name_temp @ '') AS b'',
          ''ON '' @ join '' AND ''
                     (map (\<lambda>col. ''a.'' @ col @ '' = b.'' @ col) unique_constraints),
          ''WHEN NOT MATCHED THEN INSERT ('' @ insert_columns @ '') VALUES (''
            @ join '', '' (map (\<lambda>col. ''b.'' @ col) columns_cleaned) @ '')'']"
  using assms by (auto simp add: merge_commands_def Let_def)

lemma merge_commands_update:
  "merge_commands U full_table_name full_table_name_temp insert_columns
     unique_constraints columns_cleaned (Some (UNIQUE_CONFLICT_METHOD_UPDATE U)) =
   [''MERGE INTO '' @ full_table_name @ '' AS a'',
    ''USING (SELECT * FROM '' @ full_table_name_temp @ '') AS b'',
    ''ON '' @ join '' AND ''
               (map (\<lambda>col. ''a.'' @ col @ '' = b.'' @ col) unique_constraints),
    ''WHEN MATCHED THEN UPDATE SET ''
      @ join '', '' (map (\<lambda>col. ''a.'' @ col @ '' = b.'' @ col) columns_cleaned),
    ''WHEN NOT MATCHED THEN INSERT ('' @ insert_columns @ '') VALUES (''
      @ join '', '' (map (\<lambda>col. ''b.'' @ col) columns_cleaned) @ '')'']"
  by (simp add: merge_commands_def Let_def)

lemma merge_commands_other_no_matched_clause:
  assumes "unique_conflict_method \<noteq> Some (UNIQUE_CONFLICT_METHOD_UPDATE U)"
  shows "\<not> list_ex is_matched_update_clause
           (merge_commands U full_table_name full_table_name_temp insert_columns
              unique_constraints columns_cleaned unique_conflict_method)"
  by (simp add: merge_commands_other[OF assms] is_matched_update_clause_def)

subsection \<open>The sample inputs evaluated\<close>

lemma sample_type_mapping:
  "bigquery_type_mapping sample_utils sample_schema
     = Some [(''id'', ''INT64''), (''name'', ''STRING'')]"
  by (simp add: sample_utils_def sql_utils_spec_def column_type_mapping_spec_def
      column_type_converted_def sample_schema_def)

lemma sample_insert_command:
  "build_insert_command sample_utils [(''id'', ''INT64''), (''name'', ''STRING'')]
     (map fst (properties sample_schema)) (convert_column_to_type sample_utils) sample_records
   = Some ([''id'', ''name''], [''(1, 'a')'', ''(2, 'b')''])"
  by (simp add: sample_utils_def sql_utils_spec_def build_insert_command_spec_def
      mapped_types_def sample_schema_def sample_records_def literal_tuple_def literal_def
      sample_clean_column_name_def quote_def)

lemma sample_create_command:
  "build_create_table_command sample_utils [(''id'', ''INT64''), (''name'', ''STRING'')]
     (map fst (properties sample_schema)) (''ds'' @ ''.'' @ ''temp_'' @ ''users'') None
   = Some ''CREATE TABLE ds.temp_users (id INT64, name STRING)''"
  by (simp add: sample_utils_def sql_utils_spec_def build_create_table_command_spec_def
      mapped_types_def sample_schema_def sample_clean_column_name_def)

lemma sample_staging_table:
  "build_create_table_commands sample_utils sample_destination sample_schema ''ds'' None
     ''temp_users'' database_name unique_constraints
   = Some [''CREATE TABLE ds.temp_users (id INT64, name STRING)'']"
  using build_create_table_commands_result[OF sample_type_mapping,
      of "''ds''" "''temp_users''" _ sample_destination None database_name unique_constraints]
    sample_create_command
  by (simp add: sample_destination_def)

lemma sample_columns: "map fst (properties sample_schema) = [''id'', ''name'']"
  by (simp add: sample_schema_def)

lemma sample_clean_names:
  "clean_column_name sample_utils ''id'' = ''id''"
  "clean_column_name sample_utils ''name'' = ''name''"
  "UNIQUE_CONFLICT_METHOD_UPDATE sample_utils = ''UPDATE''"
  by (simp_all add: sample_utils_def sql_utils_spec_def sample_clean_column_name_def)

text \<open>
  C1. When both a non-empty list of unique constraints and a conflict method are
  supplied, \<open>build_insert_commands\<close> returns exactly five commands, in this order:
  drop the staging table if it exists, create the staging table (the one command of
  \<open>build_create_table_commands\<close> for \<open>temp_<table>\<close>), insert the batch into the
  staging table, merge the staging table into the target, drop the staging table again;
  and when the method is not the update constant, no clause of the merge command is a
  \<open>WHEN MATCHED\<close> clause. The hypotheses say that the imported helpers return.
\<close>

theorem upsert_five_commands:
  assumes "bigquery_type_mapping U schema = Some mapping"
    and "build_insert_command U mapping (map fst (properties schema))
           (convert_column_to_type U) records = Some (insert_columns, insert_values)"
    and "build_create_table_command U mapping (map fst (properties schema))
           (schema_name @ ''.temp_'' @ table_name) None = Some create_table_command"
    and "unique_constraints \<noteq> []" and "unique_conflict_method \<noteq> []"
  shows "\<exists>create.
           build_create_table_commands U self schema schema_name None (''temp_'' @ table_name)
             database_name (Some unique_constraints) = Some [create]
         \<and> build_insert_commands U self records schema schema_name table_name database_name
             (Some unique_conflict_method) (Some unique_constraints) =
           Some [''DROP TABLE IF EXISTS '' @ format_str database_name @ ''.'' @ schema_name
                   @ ''.temp_'' @ table_name,
                 create,
                 ''INSERT INTO '' @ format_str database_name @ ''.'' @ schema_name
                   @ ''.temp_'' @ table_name @ '' ('' @ join '', '' insert_columns
                   @ '') VALUES '' @ join '', '' insert_values,
                 join newline
                   (merge_commands U
                      (format_str database_name @ ''.'' @ schema_name @ ''.'' @ table_name)
                      (format_str database_name @ ''.'' @ schema_name @ ''.temp_'' @ table_name)
                      (join '', '' insert_columns)
                      (map (clean_column_name U) unique_constraints)
                      (map (clean_column_name U) (map fst (properties schema)))
                      (Some unique_conflict_method)),
                 ''DROP TABLE IF EXISTS '' @ format_str database_name @ ''.'' @ schema_name
                   @ ''.temp_'' @ table_name]
         \<and> (unique_conflict_method \<noteq> UNIQUE_CONFLICT_METHOD_UPDATE U \<longrightarrow>
              \<not> list_ex is_matched_update_clause
                  (merge_commands U
                     (format_str database_name @ ''.'' @ schema_name @ ''.'' @ table_name)
                     (format_str database_name @ ''.'' @ schema_name @ ''.temp_'' @ table_name)
                     (join '', '' insert_columns)
                     (map (clean_column_name U) unique_constraints)
                     (map (clean_column_name U) (map fst (properties schema)))
                     (Some unique_conflict_method)))"
proof -
  from assms(3)
  have "build_create_table_command U mapping (map fst (properties schema))
          (schema_name @ ''.'' @ ''temp_'' @ table_name) None = Some create_table_command"
    by simp
  from build_create_table_commands_result[OF assms(1) this]
  obtain create where create:
    "build_create_table_commands U self schema schema_name None (''temp_'' @ table_name)
       database_name (Some unique_constraints) = Some [create]"
    by blast
  have "unique_conflict_method \<noteq> UNIQUE_CONFLICT_METHOD_UPDATE U \<Longrightarrow>
        Some unique_conflict_method \<noteq> Some (UNIQUE_CONFLICT_METHOD_UPDATE U)"
    by simp
  with build_insert_commands_upsert[OF assms(1) assms(2) create assms(4) assms(5)] create
  show ?thesis
    by (auto simp add: merge_commands_other_no_matched_clause)
qed

theorem upsert_five_commands_witness:
  "build_insert_commands sample_utils sample_destination sample_records sample_schema
     ''ds'' ''users'' (Some ''proj'') (Some ''IGNORE'') (Some [''id'']) =
   Some [''DROP TABLE IF EXISTS proj.ds.temp_users'',
         ''CREATE TABLE ds.temp_users (id INT64, name STRING)'',
         ''INSERT INTO proj.ds.temp_users (id, name) VALUES (1, 'a'), (2, 'b')'',
         ''MERGE INTO proj.ds.users AS a\<newline>USING (SELECT * FROM proj.ds.temp_users) AS b\<newline>ON a.id = b.id\<newline>WHEN NOT MATCHED THEN INSERT (id, name) VALUES (b.id, b.name)'',
         ''DROP TABLE IF EXISTS proj.ds.temp_users'']
   \<and> \<not> list_ex is_matched_update_clause
         (merge_commands sample_utils ''proj.ds.users'' ''proj.ds.temp_users'' ''id, name''
            [''id''] [''id'', ''name''] (Some ''IGNORE''))"
proof -
  have create: "build_create_table_command sample_utils [(''id'', ''INT64''), (''name'', ''STRING'')]
     (map fst (properties sample_schema)) (''ds'' @ ''.temp_'' @ ''users'') None
   = Some ''CREATE TABLE ds.temp_users (id INT64, name STRING)''"
    using sample_create_command by simp
  have ne: "[''id''] \<noteq> []" "''IGNORE'' \<noteq> []" by simp_all
  from upsert_five_commands[OF sample_type_mapping sample_insert_command create ne,
      of sample_destination "Some ''proj''"]
  show ?thesis
    by (simp add: sample_staging_table sample_clean_names sample_columns
        merge_commands_def newline_def is_matched_update_clause_def)
qed

lemma sample_upsert:
  assumes "method \<noteq> []"
  shows "build_insert_commands sample_utils sample_destination sample_records sample_schema
           ''ds'' ''users'' (Some ''proj'') (Some method) (Some [''id'']) =
         Some [''DROP TABLE IF EXISTS proj.ds.temp_users'',
               ''CREATE TABLE ds.temp_users (id INT64, name STRING)'',
               ''INSERT INTO proj.ds.temp_users (id, name) VALUES (1, 'a'), (2, 'b')'',
               join newline
                 (merge_commands sample_utils ''proj.ds.users'' ''proj.ds.temp_users''
                    ''id, name'' [''id''] [''id'', ''name''] (Some method)),
               ''DROP TABLE IF EXISTS proj.ds.temp_users'']"
proof -
  have "build_create_table_commands sample_utils sample_destination sample_schema ''ds'' None
          (''temp_'' @ ''users'') (Some ''proj'') (Some [''id''])
        = Some [''CREATE TABLE ds.temp_users (id INT64, name STRING)'']"
    by (simp add: sample_staging_table)
  from build_insert_commands_upsert[OF sample_type_mapping sample_insert_command this _ assms]
  show ?thesis
    by (simp add: sample_clean_names sample_columns)
qed

text \<open>
  C10. For every non-empty conflict method other than the update constant,
  \<open>build_insert_commands\<close> with unique constraints raises no error of its own (it
  returns whenever the imported helpers do) and produces a merge command of four
  clauses, none of them a \<open>WHEN MATCHED\<close> clause; the commands are the same for any
  two such methods, so an unrecognised method is treated as \<open>IGNORE\<close> is.
\<close>

theorem unrecognized_method_treated_as_ignore:
  assumes "bigquery_type_mapping U schema = Some mapping"
    and "build_insert_command U mapping (map fst (properties schema))
           (convert_column_to_type U) records = Some (insert_columns, insert_values)"
    and "build_create_table_command U mapping (map fst (properties schema))
           (schema_name @ ''.temp_'' @ table_name) None = Some create_table_command"
    and "unique_constraints \<noteq> []"
    and "method \<noteq> []" and "method \<noteq> UNIQUE_CONFLICT_METHOD_UPDATE U"
    and "other \<noteq> []" and "other \<noteq> UNIQUE_CONFLICT_METHOD_UPDATE U"
  shows "\<exists>create.
           build_insert_commands U self records schema schema_name table_name database_name
             (Some method) (Some unique_constraints) =
           Some [''DROP TABLE IF EXISTS '' @ format_str database_name @ ''.'' @ schema_name
                   @ ''.temp_'' @ table_name,
                 create,
                 ''INSERT INTO '' @ format_str database_name @ ''.'' @ schema_name
                   @ ''.temp_'' @ table_name @ '' ('' @ join '', '' insert_columns
                   @ '') VALUES '' @ join '', '' insert_values,
                 join newline
                   [''MERGE INTO '' @ format_str database_name @ ''.'' @ schema_name @ ''.''
                      @ table_name @ '' AS a'',
                    ''USING (SELECT * FROM '' @ format_str database_name @ ''.'' @ schema_name
                      @ ''.temp_'' @ table_name @ '') AS b'',
                    ''ON '' @ join '' AND ''
                      (map (\<lambda>col. ''a.'' @ col @ '' = b.'' @ col)
                         (map (clean_column_name U) unique_constraints)),
                    ''WHEN NOT MATCHED THEN INSERT ('' @ join '', '' insert_columns
                      @ '') VALUES (''
                      @ join '', ''
                          (map (\<lambda>col. ''b.'' @ col)
                             (map (clean_column_name U) (map fst (properties schema))))
                      @ '')''],
                 ''DROP TABLE IF EXISTS '' @ format_str database_name @ ''.'' @ schema_name
                   @ ''.temp_'' @ table_name]
         \<and> build_insert_commands U self records schema schema_name table_name database_name
             (Some method) (Some unique_constraints) =
           build_insert_commands U self records schema schema_name table_name database_name
             (Some other) (Some unique_constraints)"
proof -
  from assms(3)
  have "build_create_table_command U mapping (map fst (properties schema))
          (schema_name @ ''.'' @ ''temp_'' @ table_name) None = Some create_table_command"
    by simp
  from build_create_table_commands_result[OF assms(1) this]
  obtain create where create:
    "build_create_table_commands U self schema schema_name None (''temp_'' @ table_name)
       database_name (Some unique_constraints) = Some [create]"
    by blast
  have m: "Some method \<noteq> Some (UNIQUE_CONFLICT_METHOD_UPDATE U)"
    and o: "Some other \<noteq> Some (UNIQUE_CONFLICT_METHOD_UPDATE U)"
    using assms(6,8) by simp_all
  show ?thesis
    using build_insert_commands_upsert[OF assms(1) assms(2) create assms(4) assms(5)]
      build_insert_commands_upsert[OF assms(1) assms(2) create assms(4) assms(7)]
    by (simp add: merge_commands_other[OF m] merge_commands_other[OF o])
qed

theorem unrecognized_method_treated_as_ignore_witness:
  "build_insert_commands sample_utils sample_destination sample_records sample_schema
     ''ds'' ''users'' (Some ''proj'') (Some ''REPLACE'') (Some [''id'']) =
   Some [''DROP TABLE IF EXISTS proj.ds.temp_users'',
         ''CREATE TABLE ds.temp_users (id INT64, name STRING)'',
         ''INSERT INTO proj.ds.temp_users (id, name) VALUES (1, 'a'), (2, 'b')'',
         ''MERGE INTO proj.ds.users AS a\<newline>USING (SELECT * FROM proj.ds.temp_users) AS b\<newline>ON a.id = b.id\<newline>WHEN NOT MATCHED THEN INSERT (id, name) VALUES (b.id, b.name)'',
         ''DROP TABLE IF EXISTS proj.ds.temp_users'']
   \<and> build_insert_commands sample_utils sample_destination sample_records sample_schema
       ''ds'' ''users'' (Some ''proj'') (Some ''REPLACE'') (Some [''id'']) =
     build_insert_commands sample_utils sample_destination sample_records sample_schema
       ''ds'' ''users'' (Some ''proj'') (Some ''IGNORE'') (Some [''id''])"
proof -
  have create: "build_create_table_command sample_utils [(''id'', ''INT64''), (''name'', ''STRING'')]
     (map fst (properties sample_schema)) (''ds'' @ ''.temp_'' @ ''users'') None
   = Some ''CREATE TABLE ds.temp_users (id INT64, name STRING)''"
    using sample_create_command by simp
  have ne: "[''id''] \<noteq> []" "''REPLACE'' \<noteq> []"
    "''REPLACE'' \<noteq> UNIQUE_CONFLICT_METHOD_UPDATE sample_utils"
    "''IGNORE'' \<noteq> []" "''IGNORE'' \<noteq> UNIQUE_CONFLICT_METHOD_UPDATE sample_utils"
    by (simp_all add: sample_clean_names)
  from unrecognized_method_treated_as_ignore[OF sample_type_mapping sample_insert_command
      create ne, of sample_destination "Some ''proj''"]
  have same:
    "build_insert_commands sample_utils sample_destination sample_records sample_schema
       ''ds'' ''users'' (Some ''proj'') (Some ''REPLACE'') (Some [''id'']) =
     build_insert_commands sample_utils sample_destination sample_records sample_schema
       ''ds'' ''users'' (Some ''proj'') (Some ''IGNORE'') (Some [''id''])"
    by blast
  with sample_upsert[OF ne(2)] show ?thesis
    by (simp add: merge_commands_def sample_clean_names newline_def)
qed

text \<open>
  C9. In the upsert sequence with a database name supplied, the staging table is created
  under the name \<open><schema>.temp_<table>\<close>: the second command is what
  \<open>build_create_table_command\<close> returns for that full table name (with the partition
  clause around it if \<open>None\<close> has partition keys), since
  \<open>build_create_table_commands\<close> does not use \<open>database_name\<close>. The \<open>DROP\<close>, the
  \<open>INSERT\<close> and the \<open>USING\<close> clause of the \<open>MERGE\<close> name
  \<open><database>.<schema>.temp_<table>\<close>. The two names differ as strings.
\<close>

theorem staging_table_created_without_database:
  assumes "bigquery_type_mapping U schema = Some mapping"
    and "build_insert_command U mapping (map fst (properties schema))
           (convert_column_to_type U) records = Some (insert_columns, insert_values)"
    and "build_create_table_command U mapping (map fst (properties schema))
           (schema_name @ ''.temp_'' @ table_name) None = Some create_table_command"
    and "unique_constraints \<noteq> []" and "unique_conflict_method \<noteq> []"
  shows "build_insert_commands U self records schema schema_name table_name (Some database_name)
           (Some unique_conflict_method) (Some unique_constraints) =
         Some [''DROP TABLE IF EXISTS '' @ database_name @ ''.'' @ schema_name @ ''.temp_''
                 @ table_name,
               (case partition_keys self None of
                  Some (partition_col # keys) \<Rightarrow>
                    newline @ create_table_command @ newline @ ''PARTITION BY'' @ newline
                      @ ''  DATE('' @ partition_col @ '')'' @ newline @ ''            ''
                | _ \<Rightarrow> create_table_command),
               ''INSERT INTO '' @ database_name @ ''.'' @ schema_name @ ''.temp_'' @ table_name
                 @ '' ('' @ join '', '' insert_columns @ '') VALUES ''
                 @ join '', '' insert_values,
               join newline
                 (merge_commands U (database_name @ ''.'' @ schema_name @ ''.'' @ table_name)
                    (database_name @ ''.'' @ schema_name @ ''.temp_'' @ table_name)
                    (join '', '' insert_columns)
                    (map (clean_column_name U) unique_constraints)
                    (map (clean_column_name U) (map fst (properties schema)))
                    (Some unique_conflict_method)),
               ''DROP TABLE IF EXISTS '' @ database_name @ ''.'' @ schema_name @ ''.temp_''
                 @ table_name]
       \<and> merge_commands U (database_name @ ''.'' @ schema_name @ ''.'' @ table_name)
           (database_name @ ''.'' @ schema_name @ ''.temp_'' @ table_name)
           (join '', '' insert_columns)
           (map (clean_column_name U) unique_constraints)
           (map (clean_column_name U) (map fst (properties schema)))
           (Some unique_conflict_method) ! 1 =
         ''USING (SELECT * FROM '' @ database_name @ ''.'' @ schema_name @ ''.temp_''
           @ table_name @ '') AS b''
       \<and> schema_name @ ''.temp_'' @ table_name
           \<noteq> database_name @ ''.'' @ schema_name @ ''.temp_'' @ table_name"
proof -
  from assms(3)
  have "build_create_table_command U mapping (map fst (properties schema))
          (schema_name @ ''.'' @ ''temp_'' @ table_name) None = Some create_table_command"
    by simp
  note create = build_create_table_commands_result[OF assms(1) this,
      of self None "Some database_name" "Some unique_constraints"]
  have commands: "build_insert_commands U self records schema schema_name table_name
      (Some database_name) (Some unique_conflict_method) (Some unique_constraints) =
     Some [''DROP TABLE IF EXISTS '' @ database_name @ ''.'' @ schema_name @ ''.temp_''
                 @ table_name,
               (case partition_keys self None of
                  Some (partition_col # keys) \<Rightarrow>
                    newline @ create_table_command @ newline @ ''PARTITION BY'' @ newline
                      @ ''  DATE('' @ partition_col @ '')'' @ newline @ ''            ''
                | _ \<Rightarrow> create_table_command),
               ''INSERT INTO '' @ database_name @ ''.'' @ schema_name @ ''.temp_'' @ table_name
                 @ '' ('' @ join '', '' insert_columns @ '') VALUES ''
                 @ join '', '' insert_values,
               join newline
                 (merge_commands U (database_name @ ''.'' @ schema_name @ ''.'' @ table_name)
                    (database_name @ ''.'' @ schema_name @ ''.temp_'' @ table_name)
                    (join '', '' insert_columns)
                    (map (clean_column_name U) unique_constraints)
                    (map (clean_column_name U) (map fst (properties schema)))
                    (Some unique_conflict_method)),
               ''DROP TABLE IF EXISTS '' @ database_name @ ''.'' @ schema_name @ ''.temp_''
                 @ table_name]"
    using build_insert_commands_upsert[OF assms(1) assms(2) create assms(4) assms(5)]
    by simp
  have using_clause: "merge_commands U (database_name @ ''.'' @ schema_name @ ''.'' @ table_name)
           (database_name @ ''.'' @ schema_name @ ''.temp_'' @ table_name)
           (join '', '' insert_columns)
           (map (clean_column_name U) unique_constraints)
           (map (clean_column_name U) (map fst (properties schema)))
           (Some unique_conflict_method) ! 1 =
         ''USING (SELECT * FROM '' @ database_name @ ''.'' @ schema_name @ ''.temp_''
           @ table_name @ '') AS b''"
    by (simp add: merge_commands_def Let_def)
  have "(database_name @ ''.'') @ (schema_name @ ''.temp_'' @ table_name)
          \<noteq> schema_name @ ''.temp_'' @ table_name"
    by (simp only: append_self_conv2) simp
  then have differ: "schema_name @ ''.temp_'' @ table_name
           \<noteq> database_name @ ''.'' @ schema_name @ ''.temp_'' @ table_name"
    by (simp only: append_assoc) (rule not_sym)
  from commands using_clause differ show ?thesis
    by (intro conjI)
qed

theorem staging_table_created_without_database_witness:
  "build_insert_commands sample_utils sample_destination sample_records sample_schema
     ''ds'' ''users'' (Some ''proj'') (Some ''UPDATE'') (Some [''id'']) =
   Some [''DROP TABLE IF EXISTS proj.ds.temp_users'',
         ''CREATE TABLE ds.temp_users (id INT64, name STRING)'',
         ''INSERT INTO proj.ds.temp_users (id, name) VALUES (1, 'a'), (2, 'b')'',
         ''MERGE INTO proj.ds.users AS a\<newline>USING (SELECT * FROM proj.ds.temp_users) AS b\<newline>ON a.id = b.id\<newline>WHEN MATCHED THEN UPDATE SET a.id = b.id, a.name = b.name\<newline>WHEN NOT MATCHED THEN INSERT (id, name) VALUES (b.id, b.name)'',
         ''DROP TABLE IF EXISTS proj.ds.temp_users'']
   \<and> ''ds.temp_users'' \<noteq> ''proj.ds.temp_users''"
proof -
  have create: "build_create_table_command sample_utils [(''id'', ''INT64''), (''name'', ''STRING'')]
     (map fst (properties sample_schema)) (''ds'' @ ''.temp_'' @ ''users'') None
   = Some ''CREATE TABLE ds.temp_users (id INT64, name STRING)''"
    using sample_create_command by simp
  have ne: "[''id''] \<noteq> []" "''UPDATE'' \<noteq> []" by simp_all
  from staging_table_created_without_database[OF sample_type_mapping sample_insert_command
      create ne, of sample_destination "''proj''"]
  show ?thesis
    by (simp add: sample_clean_names sample_columns sample_destination_def
        merge_commands_def newline_def)
qed

text \<open>
  C2. With unique constraints and a conflict method, the fourth command is the
  \<open>MERGE\<close> whose \<open>ON\<close> clause is the \<open>AND\<close>-ed equality \<open>a.col = b.col\<close> over all
  sanitised unique-constraint columns; when the method is the update constant, the
  \<open>WHEN MATCHED\<close> clause sets every non-key column (every schema column that is not a
  unique constraint) from the staging row: the assignment \<open>a.col = b.col\<close> of each of
  them is among the assignments of the \<open>SET\<close> list, which is the list of these
  assignments for all sanitised schema columns in schema order; and the
  \<open>WHEN NOT MATCHED\<close> clause inserts \<open>b.col\<close> for every sanitised schema column
  under the column list of the \<open>INSERT\<close>. The hypotheses say that the imported
  helpers return.
\<close>

theorem upsert_merge_clauses:
  assumes "bigquery_type_mapping U schema = Some mapping"
    and "build_insert_command U mapping (map fst (properties schema))
           (convert_column_to_type U) records = Some (insert_columns, insert_values)"
    and "build_create_table_command U mapping (map fst (properties schema))
           (schema_name @ ''.temp_'' @ table_name) None = Some create_table_command"
    and "unique_constraints \<noteq> []" and "unique_conflict_method \<noteq> []"
  shows "\<exists>commands.
           build_insert_commands U self records schema schema_name table_name database_name
             (Some unique_conflict_method) (Some unique_constraints) = Some commands
         \<and> length commands = 5
         \<and> commands ! 3 =
             join newline
               ([''MERGE INTO '' @ format_str database_name @ ''.'' @ schema_name @ ''.''
                   @ table_name @ '' AS a'',
                 ''USING (SELECT * FROM '' @ format_str database_name @ ''.'' @ schema_name
                   @ ''.temp_'' @ table_name @ '') AS b'',
                 ''ON '' @ join '' AND ''
                   (map (\<lambda>col. ''a.'' @ col @ '' = b.'' @ col)
                      (map (clean_column_name U) unique_constraints))]
                @ (if unique_conflict_method = UNIQUE_CONFLICT_METHOD_UPDATE U
                   then [''WHEN MATCHED THEN UPDATE SET ''
                           @ join '', ''
                               (map (\<lambda>col. ''a.'' @ col @ '' = b.'' @ col)
                                  (map (clean_column_name U) (map fst (properties schema))))]
                   else [])
                @ [''WHEN NOT MATCHED THEN INSERT ('' @ join '', '' insert_columns
                     @ '') VALUES (''
                     @ join '', ''
                         (map (\<lambda>col. ''b.'' @ col)
                            (map (clean_column_name U) (map fst (properties schema))))
                     @ '')''])
         \<and> set (map (\<lambda>col. ''a.'' @ col @ '' = b.'' @ col)
                  (map (clean_column_name U)
                     (non_key_columns (map fst (properties schema)) unique_constraints)))
             \<subseteq> set (map (\<lambda>col. ''a.'' @ col @ '' = b.'' @ col)
                      (map (clean_column_name U) (map fst (properties schema))))"
proof -
  from assms(3)
  have "build_create_table_command U mapping (map fst (properties schema))
          (schema_name @ ''.'' @ ''temp_'' @ table_name) None = Some create_table_command"
    by simp
  from build_create_table_commands_result[OF assms(1) this]
  obtain create where create:
    "build_create_table_commands U self schema schema_name None (''temp_'' @ table_name)
       database_name (Some unique_constraints) = Some [create]"
    by blast
  note commands = build_insert_commands_upsert[OF assms(1) assms(2) create assms(4) assms(5)]
  have covered:
    "set (map (\<lambda>col. ''a.'' @ col @ '' = b.'' @ col)
            (map (clean_column_name U)
               (non_key_columns (map fst (properties schema)) unique_constraints)))
       \<subseteq> set (map (\<lambda>col. ''a.'' @ col @ '' = b.'' @ col)
                (map (clean_column_name U) (map fst (properties schema))))"
    by (auto simp add: non_key_columns_def)
  show ?thesis
  proof (cases "unique_conflict_method = UNIQUE_CONFLICT_METHOD_UPDATE U")
    case True
    with commands covered show ?thesis
      by (simp add: merge_commands_update)
  next
    case False
    then have "Some unique_conflict_method \<noteq> Some (UNIQUE_CONFLICT_METHOD_UPDATE U)"
      by simp
    from merge_commands_other[OF this] commands covered False show ?thesis
      by simp
  qed
qed

theorem upsert_merge_clauses_witness:
  "\<exists>commands.
     build_insert_commands sample_utils sample_destination sample_records sample_schema
       ''ds'' ''users'' (Some ''proj'') (Some ''UPDATE'') (Some [''id'']) = Some commands
   \<and> length commands = 5
   \<and> commands ! 3 =
       ''MERGE INTO proj.ds.users AS a\<newline>USING (SELECT * FROM proj.ds.temp_users) AS b\<newline>ON a.id = b.id\<newline>WHEN MATCHED THEN UPDATE SET a.id = b.id, a.name = b.name\<newline>WHEN NOT MATCHED THEN INSERT (id, name) VALUES (b.id, b.name)''
   \<and> non_key_columns [''id'', ''name''] [''id''] = [''name'']
   \<and> ''a.name = b.name'' \<in> set [''a.id = b.id'', ''a.name = b.name'']"
proof -
  have create: "build_create_table_command sample_utils [(''id'', ''INT64''), (''name'', ''STRING'')]
     (map fst (properties sample_schema)) (''ds'' @ ''.temp_'' @ ''users'') None
   = Some ''CREATE TABLE ds.temp_users (id INT64, name STRING)''"
    using sample_create_command by simp
  have ne: "[''id''] \<noteq> []" "''UPDATE'' \<noteq> []" by simp_all
  from upsert_merge_clauses[OF sample_type_mapping sample_insert_command create ne,
      of sample_destination "Some ''proj''"]
  show ?thesis
    by (simp add: sample_clean_names sample_columns newline_def non_key_columns_def)
qed

subsection \<open>The alter builder\<close>

lemma build_alter_table_commands_result:
  assumes "build_connection self = Some connection"
    and "load U connection (columns_query schema_name table_name) = Some results"
  shows "build_alter_table_commands U self schema schema_name stream table_name database_name
           unique_constraints =
         (if filter (\<lambda>c. c \<notin> set (map fst results)) (map fst (properties schema)) = []
          then Some []
          else Option.bind (bigquery_type_mapping U schema)
                 (\<lambda>type_mapping.
                    Option.bind
                      (build_alter_table_command U type_mapping
                         (filter (\<lambda>c. c \<notin> set (map fst results))
                            (map fst (properties schema)))
                         (schema_name @ ''.'' @ table_name))
                      (\<lambda>command. Some [command])))"
  using assms by (simp add: build_alter_table_commands_def Let_def)

lemma no_new_columns_iff:
  "(filter (\<lambda>c. c \<notin> set live) columns = []) = (set columns \<subseteq> set live)"
  by (auto simp add: filter_empty_conv)

lemma sample_alter_command:
  "build_alter_table_command sample_utils
     [(''id'', ''INT64''), (''name'', ''STRING''), (''age'', ''INT64'')]
     [''name'', ''age''] ''ds.users''
   = Some ''ALTER TABLE ds.users ADD COLUMN name STRING, ADD COLUMN age INT64''"
  by (simp add: sample_utils_def sql_utils_spec_def build_alter_table_command_spec_def
      mapped_types_def sample_clean_column_name_def)

lemma sample_type_mapping_wide:
  "bigquery_type_mapping sample_utils sample_schema_wide
     = Some [(''id'', ''INT64''), (''name'', ''STRING''), (''age'', ''INT64'')]"
  by (simp add: sample_utils_def sql_utils_spec_def column_type_mapping_spec_def
      column_type_converted_def sample_schema_wide_def)

lemma sample_connection:
  "build_connection sample_destination = Some (BigQueryConnection ''key.json'')"
  by (simp add: build_connection_def sample_destination_def)

lemma sample_live_columns:
  "load sample_utils connection query = Some [(''id'', ''INT64'')]"
  by (simp add: sample_utils_def sql_utils_spec_def sample_load_def)

text \<open>
  C3. For every schema and every snapshot \<open>results\<close> of the live table's columns,
  \<open>build_alter_table_commands\<close> returns the empty list if and only if every schema
  column is among the live columns; otherwise it returns exactly one command, the
  \<open>ALTER TABLE\<close> command of the imported helper for precisely the schema columns that
  are not live, in schema order, and none of these columns is a live one (nothing is
  removed or retyped). The hypotheses say that the connection is built and that the
  metadata query returns \<open>results\<close>.
\<close>

theorem alter_adds_exactly_the_new_columns:
  assumes "build_connection self = Some connection"
    and "load U connection (columns_query schema_name table_name) = Some results"
  shows "(build_alter_table_commands U self schema schema_name stream table_name
            database_name unique_constraints = Some [])
           = (set (map fst (properties schema)) \<subseteq> set (map fst results))
       \<and> (\<not> set (map fst (properties schema)) \<subseteq> set (map fst results) \<longrightarrow>
            bigquery_type_mapping U schema = Some type_mapping \<longrightarrow>
            build_alter_table_command U type_mapping
              (filter (\<lambda>c. c \<notin> set (map fst results)) (map fst (properties schema)))
              (schema_name @ ''.'' @ table_name) = Some command \<longrightarrow>
            build_alter_table_commands U self schema schema_name stream table_name
              database_name unique_constraints = Some [command])
       \<and> set (filter (\<lambda>c. c \<notin> set (map fst results)) (map fst (properties schema)))
           = set (map fst (properties schema)) - set (map fst results)"
proof (intro conjI impI)
  show "(build_alter_table_commands U self schema schema_name stream table_name
            database_name unique_constraints = Some [])
           = (set (map fst (properties schema)) \<subseteq> set (map fst results))"
    unfolding build_alter_table_commands_result[OF assms] no_new_columns_iff
    by (auto split: Option.bind_splits)
next
  assume "\<not> set (map fst (properties schema)) \<subseteq> set (map fst results)"
    and "bigquery_type_mapping U schema = Some type_mapping"
    and "build_alter_table_command U type_mapping
              (filter (\<lambda>c. c \<notin> set (map fst results)) (map fst (properties schema)))
              (schema_name @ ''.'' @ table_name) = Some command"
  then show "build_alter_table_commands U self schema schema_name stream table_name
              database_name unique_constraints = Some [command]"
    unfolding build_alter_table_commands_result[OF assms] no_new_columns_iff
    by simp
next
  show "set (filter (\<lambda>c. c \<notin> set (map fst results)) (map fst (properties schema)))
           = set (map fst (properties schema)) - set (map fst results)"
    by auto
qed

theorem alter_adds_exactly_the_new_columns_witness:
  "build_alter_table_commands sample_utils sample_destination sample_schema_wide ''ds'' None
     ''users'' (Some ''proj'') None =
   Some [''ALTER TABLE ds.users ADD COLUMN name STRING, ADD COLUMN age INT64'']
   \<and> build_alter_table_commands sample_utils sample_destination sample_schema_wide ''ds'' None
       ''users'' (Some ''proj'') None \<noteq> Some []
   \<and> \<not> set (map fst (properties sample_schema_wide)) \<subseteq> set (map fst [(''id'', ''INT64'')])"
proof -
  have columns: "map fst (properties sample_schema_wide) = [''id'', ''name'', ''age'']"
    by (simp add: sample_schema_wide_def)
  from alter_adds_exactly_the_new_columns[OF sample_connection sample_live_columns,
      of sample_schema_wide "''ds''" None "''users''" "Some ''proj''" None
        "[(''id'', ''INT64''), (''name'', ''STRING''), (''age'', ''INT64'')]"
        "''ALTER TABLE ds.users ADD COLUMN name STRING, ADD COLUMN age INT64''"]
    sample_type_mapping_wide sample_alter_command
  show ?thesis
    by (simp add: columns)
qed

subsection \<open>The helpers as described\<close>

lemma those_eq_Some: "(those xs = Some ys) = (xs = map Some ys)"
proof (induction xs arbitrary: ys)
  case Nil
  show ?case by auto
next
  case (Cons x xs)
  show ?case
  proof (cases x)
    case None
    then show ?thesis by auto
  next
    case (Some y)
    with Cons show ?thesis by (cases ys) auto
  qed
qed

lemma column_type_mapping_spec_Some:
  assumes "column_type_mapping_spec schema convert convert_array number_type string_type
             = Some mapping"
  shows "map fst mapping = map fst (properties schema)"
    and "length mapping = length (properties schema)"
    and "i < length (properties schema) \<Longrightarrow>
           column_type_converted convert convert_array number_type string_type
             (snd (properties schema ! i)) = Some (snd (mapping ! i))"
proof -
  let ?f = "\<lambda>(column, settings).
              map_option (Pair column)
                (column_type_converted convert convert_array number_type string_type settings)"
  from assms have eq: "map ?f (properties schema) = map Some mapping"
    by (simp add: column_type_mapping_spec_def those_eq_Some)
  then have len: "length (properties schema) = length mapping"
    by (rule map_eq_imp_length_eq)
  then show "length mapping = length (properties schema)" by simp
  have nth: "?f (properties schema ! j) = Some (mapping ! j)" if "j < length (properties schema)" for j
  proof -
    from that have "map ?f (properties schema) ! j = ?f (properties schema ! j)" by simp
    moreover from that len have "map Some mapping ! j = Some (mapping ! j)" by simp
    ultimately show ?thesis using eq by simp
  qed
  show "map fst mapping = map fst (properties schema)"
  proof (rule nth_equalityI)
    show "length (map fst mapping) = length (map fst (properties schema))"
      using len by simp
  next
    fix j assume "j < length (map fst mapping)"
    with len have j: "j < length (properties schema)" by simp
    from nth[OF j] have "fst (mapping ! j) = fst (properties schema ! j)"
      by (cases "properties schema ! j"; cases "mapping ! j") auto
    with j len show "map fst mapping ! j = map fst (properties schema) ! j" by simp
  qed
  show "column_type_converted convert convert_array number_type string_type
          (snd (properties schema ! i)) = Some (snd (mapping ! i))"
    if "i < length (properties schema)"
    using nth[OF that] by (cases "properties schema ! i"; cases "mapping ! i") auto
qed

lemma map_of_distinct_keys:
  assumes "distinct (map fst mapping)"
  shows "map (map_of mapping) (map fst mapping) = map Some (map snd mapping)"
  using assms
proof (induction mapping)
  case Nil
  show ?case by simp
next
  case (Cons entry mapping)
  obtain k v where entry: "entry = (k, v)" by (cases entry)
  from Cons.prems entry have k: "k \<notin> fst ` set mapping" and d: "distinct (map fst mapping)"
    by auto
  have "map (map_of ((k, v) # mapping)) (map fst mapping)
          = map (map_of mapping) (map fst mapping)"
    using k by (intro map_cong) auto
  with Cons.IH[OF d] entry show ?case by simp
qed

lemma mapped_types_own_columns:
  assumes "distinct (map fst mapping)"
  shows "mapped_types mapping (map fst mapping) = Some (map snd mapping)"
  unfolding mapped_types_def those_eq_Some by (rule map_of_distinct_keys[OF assms])

lemma zip_columns_types: "zip (map fst mapping) (map snd mapping) = mapping"
  by (induction mapping) auto

text \<open>
  C4. With the helpers as the specification describes them: for every batch of records,
  when no unique constraints or no conflict method is supplied (either is \<open>None\<close> or
  empty), \<open>build_insert_commands\<close> returns exactly one command, an \<open>INSERT INTO\<close> the
  table \<open><database>.<schema>.<table></table>\<close> whose \<open>VALUES\<close> clause joins one literal tuple
  per record, as many tuples as records, each with one field per schema column in schema
  order. The hypotheses say that the schema's column names are distinct and that the
  type mapper returns a mapping.
\<close>

theorem plain_insert_one_command:
  assumes "distinct (map fst (properties schema))"
    and "column_type_mapping_spec schema convert (\<lambda>item_type_converted. ''ARRAY'')
           ''FLOAT64'' ''STRING'' = Some mapping"
    and "\<not> (truthy unique_constraints \<and> truthy unique_conflict_method)"
  shows "build_insert_commands
           (sql_utils_spec clean convert convert_to update_method load_func
              create_with_constraints)
           self records schema schema_name table_name database_name unique_conflict_method
           unique_constraints =
         Some [''INSERT INTO '' @ format_str database_name @ ''.'' @ schema_name @ ''.''
                 @ table_name @ '' ('' @ join '', '' (map clean (map fst (properties schema)))
                 @ '') VALUES '' @ join '', '' (map (literal_tuple convert_to mapping) records)]
       \<and> length (map (literal_tuple convert_to mapping) records) = length records
       \<and> map fst mapping = map fst (properties schema)"
proof -
  let ?U = "sql_utils_spec clean convert convert_to update_method load_func
              create_with_constraints"
  note columns = column_type_mapping_spec_Some(1)[OF assms(2)]
  from assms(1) columns have "distinct (map fst mapping)" by simp
  from mapped_types_own_columns[OF this] columns
  have types: "mapped_types mapping (map fst (properties schema)) = Some (map snd mapping)"
    by simp
  have mapping: "bigquery_type_mapping ?U schema = Some mapping"
    using assms(2) by (simp add: sql_utils_spec_def)
  have "zip (map fst (properties schema)) (map snd mapping) = mapping"
    using zip_columns_types[of mapping] columns by simp
  then have insert: "build_insert_command ?U mapping (map fst (properties schema))
      (convert_column_to_type ?U) records =
      Some (map clean (map fst (properties schema)),
            map (literal_tuple convert_to mapping) records)"
    by (simp add: sql_utils_spec_def build_insert_command_spec_def types)
  from build_insert_commands_plain[OF mapping insert assms(3)] columns
  show ?thesis by simp
qed

theorem plain_insert_one_command_witness:
  "build_insert_commands sample_utils sample_destination sample_records sample_schema
     ''ds'' ''users'' (Some ''proj'') None None =
   Some [''INSERT INTO proj.ds.users (id, name) VALUES (1, 'a'), (2, 'b')'']
   \<and> length sample_records = 2"
proof -
  have d: "distinct (map fst (properties sample_schema))"
    by (simp add: sample_schema_def)
  have m: "column_type_mapping_spec sample_schema sample_convert_column_type
             (\<lambda>item_type_converted. ''ARRAY'') ''FLOAT64'' ''STRING''
           = Some [(''id'', ''INT64''), (''name'', ''STRING'')]"
    using sample_type_mapping by (simp add: sample_utils_def sql_utils_spec_def)
  have t: "\<not> (truthy (None :: string list option) \<and> truthy (None :: string option))"
    by simp
  from plain_insert_one_command[OF d m t, of sample_clean_column_name
      sample_convert_column_to_type "''UPDATE''" sample_load
      "\<lambda>mapping columns full_table_name constraints. None"
      sample_destination sample_records "''ds''" "''users''" "Some ''proj''"]
  show ?thesis
    by (simp add: sample_utils_def sample_columns sample_clean_column_name_def
        sample_records_def literal_tuple_def literal_def quote_def)
qed

text \<open>
  C5. With the helpers as the specification describes them: for every schema and table,
  \<open>build_create_table_commands\<close> returns exactly one command, the \<open>CREATE TABLE\<close> of
  \<open><schema>.<table>\<close> that lists every schema column with its mapped type in schema
  order; when the stream has at least one partition key, the \<open>PARTITION BY\<close> clause
  on the first of them is appended; and the command does not depend on the unique
  constraints given, nor on what the helper would return for unique constraints, since
  the builder passes \<open>None\<close> for them. The hypotheses say that the schema's column
  names are distinct and that the type mapper returns a mapping.
\<close>

theorem create_table_one_command:
  assumes "distinct (map fst (properties schema))"
    and "column_type_mapping_spec schema convert (\<lambda>item_type_converted. ''ARRAY'')
           ''FLOAT64'' ''STRING'' = Some mapping"
  shows "build_create_table_commands
           (sql_utils_spec clean convert convert_to update_method load_func
              create_with_constraints)
           self schema schema_name stream table_name database_name unique_constraints =
         Some [let create_table_command =
                     ''CREATE TABLE '' @ schema_name @ ''.'' @ table_name @ '' (''
                       @ join '', '' (map (\<lambda>(col, t). clean col @ '' '' @ t) mapping) @ '')''
               in case partition_keys self stream of
                    Some (partition_col # keys) \<Rightarrow>
                      newline @ create_table_command @ newline @ ''PARTITION BY'' @ newline
                        @ ''  DATE('' @ partition_col @ '')'' @ newline @ ''            ''
                  | _ \<Rightarrow> create_table_command]
       \<and> map fst mapping = map fst (properties schema)"
proof -
  let ?U = "sql_utils_spec clean convert convert_to update_method load_func
              create_with_constraints"
  note columns = column_type_mapping_spec_Some(1)[OF assms(2)]
  from assms(1) columns have "distinct (map fst mapping)" by simp
  from mapped_types_own_columns[OF this] columns
  have types: "mapped_types mapping (map fst (properties schema)) = Some (map snd mapping)"
    by simp
  have mapping: "bigquery_type_mapping ?U schema = Some mapping"
    using assms(2) by (simp add: sql_utils_spec_def)
  have "zip (map fst (properties schema)) (map snd mapping) = mapping"
    using zip_columns_types[of mapping] columns by simp
  then have create: "build_create_table_command ?U mapping (map fst (properties schema))
      (schema_name @ ''.'' @ table_name) None =
      Some (''CREATE TABLE '' @ schema_name @ ''.'' @ table_name @ '' (''
              @ join '', '' (map (\<lambda>(col, t). clean col @ '' '' @ t) mapping) @ '')'')"
    by (simp add: sql_utils_spec_def build_create_table_command_spec_def types)
  from build_create_table_commands_result[OF mapping create,
      of self stream database_name unique_constraints] columns
  show ?thesis by (simp add: Let_def split: option.splits list.splits)
qed

theorem create_table_one_command_witness:
  "build_create_table_commands sample_utils sample_destination sample_schema ''ds''
     (Some ''events'') ''users'' (Some ''proj'') (Some [''id'']) =
   Some [''\<newline>CREATE TABLE ds.users (id INT64, name STRING)\<newline>PARTITION BY\<newline>  DATE(created_at)\<newline>            '']
   \<and> partition_keys sample_destination (Some ''events'') = Some [''created_at'', ''day'']"
proof -
  have d: "distinct (map fst (properties sample_schema))"
    by (simp add: sample_schema_def)
  have m: "column_type_mapping_spec sample_schema sample_convert_column_type
             (\<lambda>item_type_converted. ''ARRAY'') ''FLOAT64'' ''STRING''
           = Some [(''id'', ''INT64''), (''name'', ''STRING'')]"
    using sample_type_mapping by (simp add: sample_utils_def sql_utils_spec_def)
  from create_table_one_command[OF d m, of sample_clean_column_name
      sample_convert_column_to_type "''UPDATE''" sample_load
      "\<lambda>mapping columns full_table_name constraints. None"
      sample_destination "''ds''" "Some ''events''" "''users''" "Some ''proj''"
      "Some [''id'']"]
  show ?thesis
    by (simp add: sample_utils_def sample_clean_column_name_def sample_destination_def
        newline_def)
qed

text \<open>
  C6. With the type mapper as the specification describes it: the array rule that the
  builders pass is \<open>\<lambda>item_type_converted. 'ARRAY'\<close>, so every column of kind array is
  converted to \<open>'ARRAY'\<close> and has this type in the mapping, whatever the kind of its
  items is and whether or not the items have a conversion.
\<close>

theorem array_columns_map_to_ARRAY:
  assumes "bigquery_type_mapping
             (sql_utils_spec clean convert convert_to update_method load_func
                create_with_constraints)
             schema = Some mapping"
    and "i < length (properties schema)"
    and "kind (snd (properties schema ! i)) = KArray"
  shows "column_type_converted convert (\<lambda>item_type_converted. ''ARRAY'') ''FLOAT64''
           ''STRING'' (snd (properties schema ! i)) = Some ''ARRAY''
       \<and> length mapping = length (properties schema)
       \<and> mapping ! i = (fst (properties schema ! i), ''ARRAY'')"
proof -
  from assms(1)
  have spec: "column_type_mapping_spec schema convert (\<lambda>item_type_converted. ''ARRAY'')
          ''FLOAT64'' ''STRING'' = Some mapping"
    by (simp add: sql_utils_spec_def)
  have converted: "column_type_converted convert (\<lambda>item_type_converted. ''ARRAY'')
      ''FLOAT64'' ''STRING'' (snd (properties schema ! i)) = Some ''ARRAY''"
    using assms(3) by (simp add: column_type_converted_def)
  note len = column_type_mapping_spec_Some(2)[OF spec]
  from column_type_mapping_spec_Some(3)[OF spec assms(2)] converted
  have "snd (mapping ! i) = ''ARRAY''" by simp
  moreover
  from column_type_mapping_spec_Some(1)[OF spec] assms(2) len
  have "fst (mapping ! i) = fst (properties schema ! i)"
    by (metis length_map nth_map)
  ultimately have "mapping ! i = (fst (properties schema ! i), ''ARRAY'')"
    by (simp add: prod_eq_iff)
  with converted len show ?thesis by simp
qed

theorem array_columns_map_to_ARRAY_witness:
  "bigquery_type_mapping sample_utils sample_schema_arrays =
     Some [(''id'', ''INT64''), (''tags'', ''ARRAY''), (''blobs'', ''ARRAY'')]
   \<and> kind (snd (properties sample_schema_arrays ! 2)) = KArray
   \<and> item_kind (snd (properties sample_schema_arrays ! 2)) = Some KObject
   \<and> sample_convert_column_type KObject ''FLOAT64'' ''STRING'' = None
   \<and> [(''id'', ''INT64''), (''tags'', ''ARRAY''), (''blobs'', ''ARRAY'')] ! 2
       = (fst (properties sample_schema_arrays ! 2), ''ARRAY'')"
proof -
  have m: "bigquery_type_mapping
             (sql_utils_spec sample_clean_column_name sample_convert_column_type
                sample_convert_column_to_type ''UPDATE'' sample_load
                (\<lambda>mapping columns full_table_name constraints. None))
             sample_schema_arrays =
           Some [(''id'', ''INT64''), (''tags'', ''ARRAY''), (''blobs'', ''ARRAY'')]"
    by (simp add: sql_utils_spec_def column_type_mapping_spec_def
        column_type_converted_def sample_schema_arrays_def)
  have i: "2 < length (properties sample_schema_arrays)"
    and k: "kind (snd (properties sample_schema_arrays ! 2)) = KArray"
    by (simp_all add: sample_schema_arrays_def)
  from array_columns_map_to_ARRAY[OF m i k] m k
  show ?thesis
    by (simp add: sample_utils_def sample_schema_arrays_def)
qed

subsection \<open>What the builders read\<close>

lemma build_create_table_commands_reads:
  assumes "partition_keys self' stream = partition_keys self stream"
  shows "build_create_table_commands (U\<lparr>load := load'\<rparr>) self' schema schema_name stream
           table_name database_name unique_constraints =
         build_create_table_commands U self schema schema_name stream table_name
           database_name unique_constraints"
  using assms by (simp add: build_create_table_commands_def)

lemma merge_commands_reads:
  "merge_commands (U\<lparr>load := load'\<rparr>) full_table_name full_table_name_temp
     insert_columns unique_constraints columns_cleaned unique_conflict_method =
   merge_commands U full_table_name full_table_name_temp insert_columns unique_constraints
     columns_cleaned unique_conflict_method"
  by (simp add: merge_commands_def)

lemma build_insert_commands_reads:
  assumes "partition_keys self' None = partition_keys self None"
  shows "build_insert_commands (U\<lparr>load := load'\<rparr>) self' records schema schema_name
           table_name database_name unique_conflict_method unique_constraints =
         build_insert_commands U self records schema schema_name table_name database_name
           unique_conflict_method unique_constraints"
  by (simp add: build_insert_commands_def Let_def merge_commands_reads
      build_create_table_commands_reads[OF assms] cong: if_cong)

lemma build_alter_table_commands_reads:
  assumes "Option.bind (build_connection self')
             (\<lambda>connection. load' connection (columns_query schema_name table_name)) =
           Option.bind (build_connection self)
             (\<lambda>connection. load U connection (columns_query schema_name table_name))"
  shows "build_alter_table_commands (U\<lparr>load := load'\<rparr>) self' schema schema_name stream
           table_name database_name unique_constraints =
         build_alter_table_commands U self schema schema_name stream table_name
           database_name unique_constraints"
proof -
  have shape: "build_alter_table_commands V s schema schema_name stream table_name
      database_name unique_constraints =
    Option.bind
      (Option.bind (build_connection s)
         (\<lambda>connection. load V connection (columns_query schema_name table_name)))
      (\<lambda>results.
         if filter (\<lambda>c. c \<notin> set (map fst results)) (map fst (properties schema)) = []
         then Some []
         else Option.bind (bigquery_type_mapping V schema)
                (\<lambda>type_mapping.
                   Option.bind
                     (build_alter_table_command V type_mapping
                        (filter (\<lambda>c. c \<notin> set (map fst results))
                           (map fst (properties schema)))
                        (schema_name @ ''.'' @ table_name))
                     (\<lambda>command. Some [command])))" for V s
    by (simp add: build_alter_table_commands_def Let_def split: Option.bind_splits)
  have a: "load (U\<lparr>load := load'\<rparr>) = load'"
    by simp
  have b: "bigquery_type_mapping (U\<lparr>load := load'\<rparr>) schema = bigquery_type_mapping U schema"
    "build_alter_table_command (U\<lparr>load := load'\<rparr>) = build_alter_table_command U"
    by simp_all
  show ?thesis
    by (simp only: shape a b assms)
qed

text \<open>
  C8. Command generation is deterministic. In the embedding each builder is a function,
  so what is proved is that the builders read nothing but these inputs:
  two invocations with the same schema, batch, table identifier, unique constraints and
  conflict method, by two destination objects with the same partition keys, on two
  connections (other credentials, another state of the database) whose metadata query
  gives the same result, return the same commands. The create and the insert builder do
  not depend on the connection at all.
\<close>

theorem commands_determined_by_inputs:
  assumes "partition_keys self' = partition_keys self"
    and "Option.bind (build_connection self')
           (\<lambda>connection. load' connection (columns_query schema_name table_name)) =
         Option.bind (build_connection self)
           (\<lambda>connection. load U connection (columns_query schema_name table_name))"
  shows "build_create_table_commands (U\<lparr>load := load'\<rparr>) self' schema schema_name stream
           table_name database_name unique_constraints =
         build_create_table_commands U self schema schema_name stream table_name
           database_name unique_constraints
       \<and> build_alter_table_commands (U\<lparr>load := load'\<rparr>) self' schema schema_name stream
           table_name database_name unique_constraints =
         build_alter_table_commands U self schema schema_name stream table_name
           database_name unique_constraints
       \<and> build_insert_commands (U\<lparr>load := load'\<rparr>) self' records schema schema_name
           table_name database_name unique_conflict_method unique_constraints =
         build_insert_commands U self records schema schema_name table_name database_name
           unique_conflict_method unique_constraints"
proof (intro conjI)
  from assms(1) have keys: "partition_keys self' k = partition_keys self k" for k
    by simp
  show "build_create_table_commands (U\<lparr>load := load'\<rparr>) self' schema schema_name stream
           table_name database_name unique_constraints =
         build_create_table_commands U self schema schema_name stream table_name
           database_name unique_constraints"
    by (rule build_create_table_commands_reads[OF keys])
  show "build_insert_commands (U\<lparr>load := load'\<rparr>) self' records schema schema_name
           table_name database_name unique_conflict_method unique_constraints =
         build_insert_commands U self records schema schema_name table_name database_name
           unique_conflict_method unique_constraints"
    by (rule build_insert_commands_reads[OF keys])
  show "build_alter_table_commands (U\<lparr>load := load'\<rparr>) self' schema schema_name stream
           table_name database_name unique_constraints =
         build_alter_table_commands U self schema schema_name stream table_name
           database_name unique_constraints"
    using assms(2) by (rule build_alter_table_commands_reads)
qed

theorem commands_determined_by_inputs_witness:
  "build_create_table_commands (sample_utils\<lparr>load := other_load\<rparr>) other_destination
     sample_schema_wide ''ds'' (Some ''events'') ''users'' (Some ''proj'') (Some [''id'']) =
   build_create_table_commands sample_utils sample_destination
     sample_schema_wide ''ds'' (Some ''events'') ''users'' (Some ''proj'') (Some [''id''])
   \<and> build_alter_table_commands (sample_utils\<lparr>load := other_load\<rparr>) other_destination
       sample_schema_wide ''ds'' (Some ''events'') ''users'' (Some ''proj'') (Some [''id'']) =
     build_alter_table_commands sample_utils sample_destination
       sample_schema_wide ''ds'' (Some ''events'') ''users'' (Some ''proj'') (Some [''id''])
   \<and> build_insert_commands (sample_utils\<lparr>load := other_load\<rparr>) other_destination
       sample_records sample_schema_wide ''ds'' ''users'' (Some ''proj'') (Some ''UPDATE'')
       (Some [''id'']) =
     build_insert_commands sample_utils sample_destination
       sample_records sample_schema_wide ''ds'' ''users'' (Some ''proj'') (Some ''UPDATE'')
       (Some [''id''])
   \<and> config other_destination \<noteq> config sample_destination
   \<and> other_load (BigQueryConnection ''other.json'') ''SELECT 1''
       \<noteq> load sample_utils (BigQueryConnection ''key.json'') ''SELECT 1''"
proof -
  have p: "partition_keys other_destination = partition_keys sample_destination"
    by (simp add: other_destination_def sample_destination_def)
  have l: "Option.bind (build_connection other_destination)
           (\<lambda>connection. other_load connection (columns_query ''ds'' ''users'')) =
         Option.bind (build_connection sample_destination)
           (\<lambda>connection. load sample_utils connection (columns_query ''ds'' ''users''))"
    by (simp add: build_connection_def other_destination_def sample_destination_def
        other_load_def sample_live_columns)
  have c: "config other_destination \<noteq> config sample_destination"
  proof
    assume "config other_destination = config sample_destination"
    then have "config other_destination ''path_to_credentials_json_file''
                 = config sample_destination ''path_to_credentials_json_file''"
      by simp
    then show False
      by (simp add: other_destination_def sample_destination_def)
  qed
  have q: "other_load (BigQueryConnection ''other.json'') ''SELECT 1''
       \<noteq> load sample_utils (BigQueryConnection ''key.json'') ''SELECT 1''"
    by (simp add: other_load_def sample_live_columns columns_query_def newline_def)
  from commands_determined_by_inputs[where self' = other_destination
      and self = sample_destination and load' = other_load and U = sample_utils
      and schema_name = "''ds''" and table_name = "''users''"
      and schema = sample_schema_wide and stream = "Some ''events''"
      and database_name = "Some ''proj''" and unique_constraints = "Some [''id'']"
      and records = sample_records and unique_conflict_method = "Some ''UPDATE''",
      OF p l] c q
  show ?thesis by (intro conjI) blast+
qed

end
